theory Spec2Isabelle
  imports Complex_Main "HOL-Library.Sublist"
begin

section \<open>Python helpers\<close>

text \<open>
  \<^verbatim>\<open>s.startswith(p)\<close> holds when the first \<open>len(p)\<close> characters of \<open>s\<close> are \<open>p\<close>.
\<close>

definition startswith :: "string \<Rightarrow> string \<Rightarrow> bool" where
  "startswith s p = (take (length p) s = p)"

text \<open>
  \<^verbatim>\<open>s.split(sep)\<close> for a one-character separator: the pieces between the separators,
  empty pieces kept, so the result is never the empty list.
\<close>

fun split :: "string \<Rightarrow> char \<Rightarrow> string list" where
  "split [] sep = [[]]"
| "split (c # cs) sep =
     (if c = sep then [] # split cs sep
      else (case split cs sep of
              [] \<Rightarrow> [[c]]
            | w # ws \<Rightarrow> (c # w) # ws))"

text \<open>
  String formatting of a value that may be \<^verbatim>\<open>None\<close>, as an f-string does it.
\<close>

definition str_opt :: "string option \<Rightarrow> string" where
  "str_opt v = (case v of None \<Rightarrow> ''None'' | Some s \<Rightarrow> s)"

section \<open>database.py: the connection string\<close>

text \<open>
  The process environment is a dictionary from names to strings;
  \<^verbatim>\<open>os.environ.get\<close> gives \<^verbatim>\<open>None\<close> for a name that is not set.
\<close>

type_synonym environ = "string \<rightharpoonup> string"

definition DB_NAME :: "environ \<Rightarrow> string option" where
  "DB_NAME env = env ''DB_NAME''"

definition DB_PASSWORD :: "environ \<Rightarrow> string option" where
  "DB_PASSWORD env = env ''DB_PASSWORD''"

definition DB_USER :: "environ \<Rightarrow> string option" where
  "DB_USER env = env ''DB_USER''"

definition DB_HOST :: "environ \<Rightarrow> string option" where
  "DB_HOST env = env ''DB_HOST''"

definition DB_PORT :: "environ \<Rightarrow> string option" where
  "DB_PORT env = env ''DB_PORT''"

definition DATABASE_URL :: "environ \<Rightarrow> string" where
  "DATABASE_URL env =
     ''postgresql://'' @ str_opt (DB_USER env) @ '':'' @ str_opt (DB_PASSWORD env)
       @ ''@'' @ str_opt (DB_HOST env) @ ''/'' @ str_opt (DB_NAME env)"

section \<open>middleware.py: the public routes\<close>

definition public_routes :: "string list" where
  "public_routes = [''/'', ''/login/'', ''/register/'', ''/docs'', ''/redoc'', ''/openapi.json'']"

text \<open>
  The condition of the first \<^verbatim>\<open>if\<close> of \<^verbatim>\<open>AuthMiddleware.dispatch\<close>:
  \<^verbatim>\<open>path in public_routes or any(path.startswith(route) for route in public_routes[1:])\<close>.
\<close>

definition is_public :: "string \<Rightarrow> bool" where
  "is_public p =
     (p \<in> set public_routes \<or> list_ex (\<lambda>route. startswith p route) (tl public_routes))"

text \<open>
  The allow-list as the specification words it: three paths matched exactly and three
  matched as prefixes.
\<close>

definition spec_public :: "string \<Rightarrow> bool" where
  "spec_public p =
     (p \<in> {''/'', ''/login/'', ''/register/''}
      \<or> list_ex (\<lambda>route. startswith p route) [''/docs'', ''/redoc'', ''/openapi.json''])"

section \<open>Values, errors and requests\<close>

text \<open>
  The values a claim set or a JSON body carries here: Python's \<^verbatim>\<open>None\<close> (JSON null),
  a string, or an integer (the expiry timestamp, in seconds).
\<close>

datatype jval = JNull | JStr string | JNum int

type_synonym claims = "string \<rightharpoonup> jval"

text \<open>\<^verbatim>\<open>d.get(k)\<close>: the value under \<open>k\<close>, and \<^verbatim>\<open>None\<close> when the key is missing.\<close>

definition dict_get :: "claims \<Rightarrow> string \<Rightarrow> jval" where
  "dict_get d k = (case d k of None \<Rightarrow> JNull | Some v \<Rightarrow> v)"

definition jval_of :: "string option \<Rightarrow> jval" where
  "jval_of v = (case v of None \<Rightarrow> JNull | Some s \<Rightarrow> JStr s)"

text \<open>
  What a handler can raise: an \<^verbatim>\<open>HTTPException\<close> with its status code and detail, which
  the framework turns into a JSON error body, or an exception nobody handles
  (\<^verbatim>\<open>KeyError\<close> from \<^verbatim>\<open>d[k]\<close>, \<^verbatim>\<open>AttributeError\<close> from a missing attribute,
  \<^verbatim>\<open>IntegrityError\<close> from the store at commit).
\<close>

datatype error =
    HTTPException nat string
  | KeyError string
  | AttributeError string
  | IntegrityError

text \<open>
  Identifiers are UUIDs; \<^verbatim>\<open>str(id)\<close> is their text, and the model keeps them as that text.
\<close>

type_synonym uuid = string

text \<open>
  The parts of a request the code reads: the path, the value of the
  \<^verbatim>\<open>Authorization\<close> header, and \<^verbatim>\<open>request.state.user\<close>, unset until the middleware
  stores the decoded claims there.
\<close>

record request =
  url_path :: string
  authorization :: "string option"
  state_user :: "claims option"

definition state_user_of :: "request \<Rightarrow> error + claims" where
  "state_user_of req =
     (case state_user req of None \<Rightarrow> Inl (AttributeError ''user'') | Some u \<Rightarrow> Inr u)"

definition minutes :: "int \<Rightarrow> int" where
  "minutes n = n * 60"

definition hours :: "int \<Rightarrow> int" where
  "hours n = n * 3600"

section \<open>models.py\<close>

text \<open>
  Columns are nullable unless declared otherwise or part of the primary key, so the
  nullable ones hold an optional value.
\<close>

record User =
  U_id :: uuid
  U_username :: "string option"
  U_email :: "string option"
  U_password :: "string option"
  U_first_name :: "string option"
  U_last_name :: "string option"

text \<open>The price is a float in the source; only its test against zero matters here.\<close>

record Book =
  B_id :: uuid
  B_title :: string
  B_author :: "string option"
  B_price :: real

record Post =
  P_id :: uuid
  P_title :: string
  P_content :: "string option"
  P_created_at :: int
  P_user_id :: uuid

text \<open>
  A table is the list of its rows, in the order the store returns them.
  \<^verbatim>\<open>query.filter(c).first()\<close> is the first row satisfying \<open>c\<close> (\<^const>\<open>find\<close>),
  \<^verbatim>\<open>.all()\<close> every such row (\<^const>\<open>filter\<close>). A column compared with a string matches
  the rows holding exactly that string; a null column matches nothing.
\<close>

definition col_eq :: "string option \<Rightarrow> string \<Rightarrow> bool" where
  "col_eq col v = (col = Some v)"

text \<open>
  \<^verbatim>\<open>Post.user_id == v\<close> for a claim value \<open>v\<close>: the column is not nullable, so the
  comparison with \<^verbatim>\<open>None\<close> selects no row; a value that is not the text of a UUID is
  taken to select none either.
\<close>

definition uuid_eq :: "uuid \<Rightarrow> jval \<Rightarrow> bool" where
  "uuid_eq col v = (v = JStr col)"

section \<open>The schemas and the auth module\<close>

text \<open>
  Modelled from the spec: \<^verbatim>\<open>schemas.py\<close> is not among the sources. The request and
  response shapes are the field sets the specification lists: \<open>UserCreate\<close> (username,
  email, password1, optional first and last name), \<open>UserResponse\<close> (identifier, username,
  email, first and last name, and no password), \<open>UserLogin\<close>, \<open>RefreshTokenRequest\<close>,
  \<open>BookUpdate\<close> (every field optional), \<open>PostCreate\<close>, and \<open>PostUpdate\<close>, which records
  for each field whether the caller supplied it (the outer option) and with what value.
\<close>

record UserCreate =
  uc_username :: string
  uc_email :: string
  uc_password1 :: string
  uc_first_name :: "string option"
  uc_last_name :: "string option"

record UserResponse =
  ur_id :: uuid
  ur_username :: "string option"
  ur_email :: "string option"
  ur_first_name :: "string option"
  ur_last_name :: "string option"

record UserLogin =
  ul_username_or_email :: string
  ul_password :: string

record BookUpdate =
  bu_title :: "string option"
  bu_author :: "string option"
  bu_price :: "real option"

record PostCreate =
  pc_title :: string
  pc_content :: "string option"

record PostUpdate =
  pu_title :: "string option option"
  pu_content :: "string option option"

text \<open>
  \<^verbatim>\<open>auth.py\<close> is not among the sources either. The handlers take its functions as a
  parameter: password hashing and verification, and the three token functions, each
  given the current time (seconds) since they read the clock. The token type is left
  open.
\<close>

record 'tok auth =
  get_password_hash :: "string \<Rightarrow> string"
  verify_password :: "string \<Rightarrow> string option \<Rightarrow> bool"
  create_access_token :: "int \<Rightarrow> claims \<Rightarrow> int \<Rightarrow> 'tok"
  create_refresh_token :: "int \<Rightarrow> claims \<Rightarrow> int \<Rightarrow> 'tok"
  decode_token :: "int \<Rightarrow> 'tok \<Rightarrow> claims option"

section \<open>middleware.py: the dispatch\<close>

text \<open>
  The middleware answers with its own JSON body \<^verbatim>\<open>{"detail": ...}\<close> and a status code, or
  with whatever the next stage returns. \<open>jwt_decode\<close> stands for
  \<^verbatim>\<open>jwt.decode(token, SECRET_KEY, algorithms=[ALGORITHM])\<close>, with \<^verbatim>\<open>None\<close> for a raised
  \<^verbatim>\<open>JWTError\<close>.
\<close>

datatype 'r mw_response = JSONResponse_detail nat string | Next 'r

definition dispatch ::
  "(string \<Rightarrow> claims option) \<Rightarrow> request \<Rightarrow> (request \<Rightarrow> 'r) \<Rightarrow> 'r mw_response" where
  "dispatch jwt_decode req call_next =
     (if is_public (url_path req) then Next (call_next req)
      else
        (case authorization req of
           None \<Rightarrow> JSONResponse_detail 401 ''Authorization header missing or invalid''
         | Some auth_header \<Rightarrow>
             if auth_header = [] \<or> \<not> startswith auth_header ''Bearer ''
             then JSONResponse_detail 401 ''Authorization header missing or invalid''
             else
               (let token = split auth_header (CHR '' '') ! 1 in
                case jwt_decode token of
                  None \<Rightarrow> JSONResponse_detail 401 ''Invalid or expired token''
                | Some payload \<Rightarrow> Next (call_next (req\<lparr>state_user := Some payload\<rparr>)))))"

section \<open>main.py: users and tokens\<close>

text \<open>
  A handler is modelled by its body: it takes the validated request body, the table it
  reads and, where it writes, returns the table after the commit. The bearer dependency
  the protected routes also declare is the framework's and reads the same header the
  middleware has already accepted.

  \<^verbatim>\<open>register_user\<close>: \<open>new_id\<close> is the identifier the column default draws for the new
  row; \<^verbatim>\<open>db.add\<close> and the commit append the row; the response model keeps the five fields
  of \<open>UserResponse\<close>.
\<close>

definition register_user ::
  "'tok auth \<Rightarrow> uuid \<Rightarrow> UserCreate \<Rightarrow> User list \<Rightarrow> (error + UserResponse) \<times> User list" where
  "register_user au new_id user users =
     (case find (\<lambda>u. col_eq (U_username u) (uc_username user)
                     \<or> col_eq (U_email u) (uc_email user)) users of
        Some existing_user \<Rightarrow>
          (Inl (HTTPException 400 ''Username or email already registered''), users)
      | None \<Rightarrow>
          (let hashed_password = get_password_hash au (uc_password1 user);
               db_user = \<lparr>U_id = new_id,
                          U_username = Some (uc_username user),
                          U_email = Some (uc_email user),
                          U_password = Some hashed_password,
                          U_first_name = uc_first_name user,
                          U_last_name = uc_last_name user\<rparr>
           in (Inr \<lparr>ur_id = U_id db_user,
                    ur_username = U_username db_user,
                    ur_email = U_email db_user,
                    ur_first_name = U_first_name db_user,
                    ur_last_name = U_last_name db_user\<rparr>,
               users @ [db_user])))"

text \<open>
  \<^verbatim>\<open>login_user\<close>: the claims are the dictionary \<^verbatim>\<open>user_data\<close> of the source; both tokens
  are made from it, for \<^verbatim>\<open>timedelta(minutes=30)\<close> and \<^verbatim>\<open>timedelta(hours=5)\<close>.
\<close>

record 'tok LoginResponse =
  lr_access_token :: 'tok
  lr_refresh_token :: 'tok
  lr_username :: "string option"
  lr_email :: "string option"
  lr_first_name :: "string option"
  lr_last_name :: "string option"

definition user_data :: "User \<Rightarrow> claims" where
  "user_data db_user =
     [''username'' \<mapsto> jval_of (U_username db_user),
      ''email'' \<mapsto> jval_of (U_email db_user),
      ''first_name'' \<mapsto> jval_of (U_first_name db_user),
      ''last_name'' \<mapsto> jval_of (U_last_name db_user),
      ''user_id'' \<mapsto> JStr (U_id db_user)]"

definition login_user ::
  "'tok auth \<Rightarrow> int \<Rightarrow> UserLogin \<Rightarrow> User list \<Rightarrow> error + 'tok LoginResponse" where
  "login_user au now user users =
     (case find (\<lambda>u. col_eq (U_username u) (ul_username_or_email user)
                     \<or> col_eq (U_email u) (ul_username_or_email user)) users of
        None \<Rightarrow> Inl (HTTPException 401 ''Incorrect username or password'')
      | Some db_user \<Rightarrow>
          if \<not> verify_password au (ul_password user) (U_password db_user)
          then Inl (HTTPException 401 ''Incorrect username or password'')
          else
            (let access_token = create_access_token au now (user_data db_user) (minutes 30);
                 refresh_token = create_refresh_token au now (user_data db_user) (hours 5)
             in Inr \<lparr>lr_access_token = access_token,
                     lr_refresh_token = refresh_token,
                     lr_username = U_username db_user,
                     lr_email = U_email db_user,
                     lr_first_name = U_first_name db_user,
                     lr_last_name = U_last_name db_user\<rparr>))"

record ProfileResponse =
  pr_username :: jval
  pr_email :: jval
  pr_first_name :: jval
  pr_last_name :: jval

text \<open>\<^verbatim>\<open>user["username"]\<close> raises \<^verbatim>\<open>KeyError\<close> when the key is missing.\<close>

definition profile :: "request \<Rightarrow> error + ProfileResponse" where
  "profile req =
     (case state_user_of req of
        Inl e \<Rightarrow> Inl e
      | Inr user \<Rightarrow>
          (case user ''username'' of
             None \<Rightarrow> Inl (KeyError ''username'')
           | Some username \<Rightarrow>
               (case user ''email'' of
                  None \<Rightarrow> Inl (KeyError ''email'')
                | Some email \<Rightarrow>
                    Inr \<lparr>pr_username = username,
                         pr_email = email,
                         pr_first_name = dict_get user ''first_name'',
                         pr_last_name = dict_get user ''last_name''\<rparr>)))"




section \<open>main.py: books\<close>

text \<open>
  Python's truth test, as \<^verbatim>\<open>if book.title:\<close> applies it: \<^verbatim>\<open>None\<close>, the empty string
  and zero are false, every other string or number is true.
\<close>

definition truthy_str :: "string option \<Rightarrow> bool" where
  "truthy_str v = (case v of None \<Rightarrow> False | Some s \<Rightarrow> s \<noteq> [])"

definition truthy_float :: "real option \<Rightarrow> bool" where
  "truthy_float v = (case v of None \<Rightarrow> False | Some x \<Rightarrow> x \<noteq> 0)"

text \<open>
  A commit writes a changed object back with \<^verbatim>\<open>UPDATE ... WHERE id = :id\<close> and removes a
  deleted one with \<^verbatim>\<open>DELETE ... WHERE id = :id\<close>; \<^verbatim>\<open>db.refresh\<close> reads the row back.
  A handler that raises commits nothing and leaves the table as it was.
\<close>

definition update_book :: "Book \<Rightarrow> Book list \<Rightarrow> Book list" where
  "update_book b books = map (\<lambda>r. if B_id r = B_id b then b else r) books"

definition patch_book ::
  "uuid \<Rightarrow> BookUpdate \<Rightarrow> Book list \<Rightarrow> (error + Book) \<times> Book list" where
  "patch_book ident book books =
     (case find (\<lambda>b. B_id b = ident) books of
        None \<Rightarrow> (Inl (HTTPException 404 ''Book not found''), books)
      | Some db_book \<Rightarrow>
          (let b1 = (case bu_title book of
                       None \<Rightarrow> db_book
                     | Some t \<Rightarrow> if t \<noteq> [] then db_book\<lparr>B_title := t\<rparr> else db_book);
               b2 = (case bu_author book of
                       None \<Rightarrow> b1
                     | Some a \<Rightarrow> if a \<noteq> [] then b1\<lparr>B_author := Some a\<rparr> else b1);
               b3 = (case bu_price book of
                       None \<Rightarrow> b2
                     | Some x \<Rightarrow> if x \<noteq> 0 then b2\<lparr>B_price := x\<rparr> else b2)
           in (Inr b3, update_book b3 books)))"

section \<open>main.py: posts\<close>

record PostItem =
  pi_id :: string
  pi_title :: string
  pi_content :: "string option"
  pi_author :: "string option"

record PostList =
  pl_total :: nat
  pl_data :: "PostItem list"
  pl_status :: bool

text \<open>
  \<^verbatim>\<open>post.author\<close> is the user the post's \<open>user_id\<close> refers to, \<^verbatim>\<open>None\<close> if there is none,
  and then \<^verbatim>\<open>post.author.username\<close> raises.
\<close>

definition post_item :: "User list \<Rightarrow> Post \<Rightarrow> error + PostItem" where
  "post_item users post =
     (case find (\<lambda>u. U_id u = P_user_id post) users of
        None \<Rightarrow> Inl (AttributeError ''username'')
      | Some author \<Rightarrow>
          Inr \<lparr>pi_id = P_id post, pi_title = P_title post, pi_content = P_content post,
               pi_author = U_username author\<rparr>)"

fun post_items :: "User list \<Rightarrow> Post list \<Rightarrow> error + PostItem list" where
  "post_items users [] = Inr []"
| "post_items users (post # rest) =
     (case post_item users post of
        Inl e \<Rightarrow> Inl e
      | Inr item \<Rightarrow>
          (case post_items users rest of
             Inl e \<Rightarrow> Inl e
           | Inr items \<Rightarrow> Inr (item # items)))"

definition get_posts :: "request \<Rightarrow> User list \<Rightarrow> Post list \<Rightarrow> error + PostList" where
  "get_posts req users posts =
     (case state_user_of req of
        Inl e \<Rightarrow> Inl e
      | Inr user \<Rightarrow>
          (let db_posts = filter (\<lambda>p. uuid_eq (P_user_id p) (dict_get user ''user_id'')) posts
           in case post_items users db_posts of
                Inl e \<Rightarrow> Inl e
              | Inr items \<Rightarrow>
                  Inr \<lparr>pl_total = length db_posts, pl_data = items, pl_status = True\<rparr>))"

definition update_post :: "Post \<Rightarrow> Post list \<Rightarrow> Post list" where
  "update_post p posts = map (\<lambda>r. if P_id r = P_id p then p else r) posts"

definition put_post ::
  "request \<Rightarrow> uuid \<Rightarrow> PostCreate \<Rightarrow> Post list \<Rightarrow> (error + Post) \<times> Post list" where
  "put_post req ident post posts =
     (case state_user_of req of
        Inl e \<Rightarrow> (Inl e, posts)
      | Inr user \<Rightarrow>
          (let user_id = dict_get user ''user_id'' in
           case find (\<lambda>p. P_id p = ident \<and> uuid_eq (P_user_id p) user_id) posts of
             None \<Rightarrow> (Inl (HTTPException 404 ''Post not found''), posts)
           | Some db_post \<Rightarrow>
               (let p' = db_post\<lparr>P_title := pc_title post, P_content := pc_content post\<rparr>
                in (Inr p', update_post p' posts))))"

text \<open>
  \<^verbatim>\<open>patch_post\<close> sets every field the caller supplied. The title column is not nullable:
  a title supplied as null makes the commit fail.
\<close>

definition patch_post ::
  "request \<Rightarrow> uuid \<Rightarrow> PostUpdate \<Rightarrow> Post list \<Rightarrow> (error + Post) \<times> Post list" where
  "patch_post req ident post posts =
     (case state_user_of req of
        Inl e \<Rightarrow> (Inl e, posts)
      | Inr user \<Rightarrow>
          (let user_id = dict_get user ''user_id'' in
           case find (\<lambda>p. P_id p = ident \<and> uuid_eq (P_user_id p) user_id) posts of
             None \<Rightarrow> (Inl (HTTPException 404 ''Post not found''), posts)
           | Some db_post \<Rightarrow>
               (case pu_title post of
                  Some None \<Rightarrow> (Inl IntegrityError, posts)
                | _ \<Rightarrow>
                    (let p1 = (case pu_title post of
                                 Some (Some t) \<Rightarrow> db_post\<lparr>P_title := t\<rparr>
                               | _ \<Rightarrow> db_post);
                         p2 = (case pu_content post of
                                 Some c \<Rightarrow> p1\<lparr>P_content := c\<rparr>
                               | None \<Rightarrow> p1)
                     in (Inr p2, update_post p2 posts)))))"

record Deleted =
  del_status_code :: nat
  del_status :: bool
  del_message :: string

definition delete_post ::
  "request \<Rightarrow> uuid \<Rightarrow> Post list \<Rightarrow> (error + Deleted) \<times> Post list" where
  "delete_post req ident posts =
     (case state_user_of req of
        Inl e \<Rightarrow> (Inl e, posts)
      | Inr user \<Rightarrow>
          (let user_id = dict_get user ''user_id'' in
           case find (\<lambda>p. P_id p = ident \<and> uuid_eq (P_user_id p) user_id) posts of
             None \<Rightarrow> (Inl (HTTPException 404 ''Post not found''), posts)
           | Some db_post \<Rightarrow>
               (Inr \<lparr>del_status_code = 200, del_status = True,
                     del_message = ''Post deleted successfully''\<rparr>,
                filter (\<lambda>r. P_id r \<noteq> P_id db_post) posts)))"

section \<open>The token layer of the specification\<close>

text \<open>
  Modelled from the spec: the token functions of \<^verbatim>\<open>auth.py\<close>, which is not among the
  sources. A token is taken symbolically: a well-formed one carries the key and the
  algorithm it was signed with and its claim set; anything else is a string that does
  not parse. \<open>create_access_token\<close> and \<open>create_refresh_token\<close> encode the supplied
  claims plus an expiration timestamp (the current time plus the duration), signed with
  the process-wide secret and algorithm. \<open>decode_token\<close> gives the claim set if the
  signature is valid and the token is unexpired, and an absent result otherwise. The
  specification does not say which way the instant of expiry itself goes; here the token
  is still accepted at that instant.
\<close>

datatype token = Signed string string claims | Garbage string

definition spec_create_token :: "string \<Rightarrow> string \<Rightarrow> int \<Rightarrow> claims \<Rightarrow> int \<Rightarrow> token" where
  "spec_create_token secret_key algorithm now data expires_delta =
     Signed secret_key algorithm (data(''exp'' \<mapsto> JNum (now + expires_delta)))"

definition unexpired :: "int \<Rightarrow> claims \<Rightarrow> bool" where
  "unexpired now payload =
     (case payload ''exp'' of
        None \<Rightarrow> True
      | Some (JNum e) \<Rightarrow> now \<le> e
      | Some _ \<Rightarrow> False)"

definition spec_decode_token :: "string \<Rightarrow> string \<Rightarrow> int \<Rightarrow> token \<Rightarrow> claims option" where
  "spec_decode_token secret_key algorithm now tok =
     (case tok of
        Garbage s \<Rightarrow> None
      | Signed k a payload \<Rightarrow>
          if k = secret_key \<and> a = algorithm \<and> unexpired now payload
          then Some payload else None)"

text \<open>
  The auth module with this token layer; password hashing and verification stay
  parameters.
\<close>

definition spec_auth ::
  "string \<Rightarrow> string \<Rightarrow> (string \<Rightarrow> string) \<Rightarrow> (string \<Rightarrow> string option \<Rightarrow> bool) \<Rightarrow> token auth" where
  "spec_auth secret_key algorithm hash verify =
     \<lparr>get_password_hash = hash,
      verify_password = verify,
      create_access_token = spec_create_token secret_key algorithm,
      create_refresh_token = spec_create_token secret_key algorithm,
      decode_token = spec_decode_token secret_key algorithm\<rparr>"


text \<open>
  A concrete auth module to instantiate the theorems with: the token layer above under a
  fixed secret, and password functions that only tag the plaintext.
\<close>

definition example_hash :: "string \<Rightarrow> string" where
  "example_hash p = ''hashed:'' @ p"

definition example_verify :: "string \<Rightarrow> string option \<Rightarrow> bool" where
  "example_verify p h = (h = Some (example_hash p))"

definition example_auth :: "token auth" where
  "example_auth = spec_auth ''secret'' ''HS256'' example_hash example_verify"

text \<open>
  A stand-in for \<^verbatim>\<open>jwt.decode\<close> that accepts one token string and gives the claims
  of a refreshed token.
\<close>

definition example_jwt_decode :: "string \<Rightarrow> claims option" where
  "example_jwt_decode s =
     (if s = ''t1'' then Some [''sub'' \<mapsto> JStr ''alice'', ''exp'' \<mapsto> JNum 1800] else None)"

section \<open>Helper lemmas\<close>

lemma startswith_prefix: "startswith s p \<longleftrightarrow> prefix p s"
  unfolding startswith_def prefix_def
  by (metis append_take_drop_id append_eq_conv_conj)

lemma is_public_iff:
  "is_public p \<longleftrightarrow>
     (p = ''/'' \<or> prefix ''/login/'' p \<or> prefix ''/register/'' p \<or> prefix ''/docs'' p
      \<or> prefix ''/redoc'' p \<or> prefix ''/openapi.json'' p)"
  unfolding is_public_def public_routes_def
  by (auto simp: startswith_prefix)

lemma find_id_Some: "find (\<lambda>b. B_id b = ident) books = Some old \<Longrightarrow> B_id old = ident"
  by (auto simp: find_Some_iff)

lemma find_None_set: "find P xs = None \<longleftrightarrow> \<not> (\<exists>x\<in>set xs. P x)"
  by (auto simp: find_None_iff)

lemma user_data_lookups:
  "user_data u ''username'' = Some (jval_of (U_username u))"
  "user_data u ''email'' = Some (jval_of (U_email u))"
  "user_data u ''first_name'' = Some (jval_of (U_first_name u))"
  "user_data u ''last_name'' = Some (jval_of (U_last_name u))"
  "user_data u ''user_id'' = Some (JStr (U_id u))"
  by (simp_all add: user_data_def)

lemma user_data_dom:
  "dom (user_data u) = {''username'', ''email'', ''first_name'', ''last_name'', ''user_id''}"
  by (simp add: user_data_def insert_commute)

lemma login_user_None:
  "find (\<lambda>u. col_eq (U_username u) (ul_username_or_email user)
             \<or> col_eq (U_email u) (ul_username_or_email user)) users = None
   \<Longrightarrow> login_user au now user users
         = Inl (HTTPException 401 ''Incorrect username or password'')"
  by (simp add: login_user_def)

lemma login_user_Some:
  "find (\<lambda>u. col_eq (U_username u) (ul_username_or_email user)
             \<or> col_eq (U_email u) (ul_username_or_email user)) users = Some db_user
   \<Longrightarrow> login_user au now user users
         = (if \<not> verify_password au (ul_password user) (U_password db_user)
            then Inl (HTTPException 401 ''Incorrect username or password'')
            else Inr \<lparr>lr_access_token = create_access_token au now (user_data db_user) 1800,
                     lr_refresh_token = create_refresh_token au now (user_data db_user) 18000,
                     lr_username = U_username db_user, lr_email = U_email db_user,
                     lr_first_name = U_first_name db_user,
                     lr_last_name = U_last_name db_user\<rparr>)"
  by (simp add: login_user_def Let_def minutes_def hours_def)

lemma example_auth_simps:
  "get_password_hash example_auth = example_hash"
  "verify_password example_auth = example_verify"
  "create_access_token example_auth = spec_create_token ''secret'' ''HS256''"
  "create_refresh_token example_auth = spec_create_token ''secret'' ''HS256''"
  "decode_token example_auth = spec_decode_token ''secret'' ''HS256''"
  by (simp_all add: example_auth_def spec_auth_def)

lemma spec_decode_create:
  "spec_decode_token sk alg t' (spec_create_token sk alg t data delta)
     = (if t' \<le> t + delta then Some (data(''exp'' \<mapsto> JNum (t + delta))) else None)"
  by (simp add: spec_decode_token_def spec_create_token_def unexpired_def)



lemma split_no_sep: "sep \<notin> set s \<Longrightarrow> split s sep = [s]"
  by (induction s) auto

lemma split_bearer:
  "CHR '' '' \<notin> set tok \<Longrightarrow> split (''Bearer '' @ tok) (CHR '' '') ! 1 = tok"
  by (simp add: split_no_sep)

lemma profile_not_public: "\<not> is_public ''/profile/''"
  by (simp add: is_public_def public_routes_def startswith_def)

lemma dispatch_profile_forward:
  assumes "url_path req = ''/profile/''"
    and "authorization req = Some (''Bearer '' @ tok)"
    and "CHR '' '' \<notin> set tok"
    and "jwt_decode tok = Some payload"
  shows "dispatch jwt_decode req call_next
           = Next (call_next (req\<lparr>state_user := Some payload\<rparr>))"
  using assms profile_not_public split_bearer [OF assms(3)]
  by (simp add: dispatch_def Let_def startswith_def)

lemma distinct_id_unique:
  assumes "distinct (map P_id posts)" and "p \<in> set posts" and "q \<in> set posts"
    and "P_id q = P_id p"
  shows "q = p"
proof -
  from assms(1) have "inj_on P_id (set posts)" by (simp add: distinct_map)
  from this assms(4,3,2) show ?thesis by (rule inj_onD)
qed

lemma find_other_owner:
  assumes "distinct (map P_id posts)" and "p \<in> set posts" and "P_id p = ident"
    and "\<not> uuid_eq (P_user_id p) v"
  shows "find (\<lambda>q. P_id q = ident \<and> uuid_eq (P_user_id q) v) posts = None"
proof -
  have "\<not> (P_id q = ident \<and> uuid_eq (P_user_id q) v)" if "q \<in> set posts" for q
  proof
    assume h: "P_id q = ident \<and> uuid_eq (P_user_id q) v"
    with assms(3) have "P_id q = P_id p" by simp
    with assms(1,2) that have "q = p" by (rule distinct_id_unique)
    with h assms(4) show False by simp
  qed
  then show ?thesis unfolding find_None_iff by blast
qed

lemma find_missing_id:
  assumes "distinct (map P_id posts)" and "p \<in> set posts" and "P_id p = ident"
  shows "find (\<lambda>q. P_id q = ident \<and> uuid_eq (P_user_id q) v) (removeAll p posts) = None"
proof -
  have "\<not> (P_id q = ident \<and> uuid_eq (P_user_id q) v)" if "q \<in> set (removeAll p posts)" for q
  proof
    assume h: "P_id q = ident \<and> uuid_eq (P_user_id q) v"
    from that have q: "q \<in> set posts" and ne: "q \<noteq> p" by simp_all
    from h assms(3) have "P_id q = P_id p" by simp
    with assms(1,2) q have "q = p" by (rule distinct_id_unique)
    with ne show False by simp
  qed
  then show ?thesis unfolding find_None_iff by blast
qed

lemma filter_removeAll_other:
  "\<not> P p \<Longrightarrow> filter P (removeAll p xs) = filter P xs"
  by (induction xs) auto

lemma post_items_ids:
  "post_items users ps = Inr items \<Longrightarrow> map pi_id items = map P_id ps"
proof (induction ps arbitrary: items)
  case Nil
  then show ?case by simp
next
  case (Cons a ps)
  from Cons.prems obtain item rest where
    i: "post_item users a = Inr item" and r: "post_items users ps = Inr rest"
    and e: "items = item # rest"
    by (auto split: sum.splits)
  from i have "pi_id item = P_id a"
    by (auto simp: post_item_def split: option.splits)
  with Cons.IH [OF r] e show ?case by simp
qed

lemma get_posts_ids:
  assumes "state_user req = Some user" and "get_posts req users posts = Inr res"
  shows "map pi_id (pl_data res)
         = map P_id (filter (\<lambda>p. uuid_eq (P_user_id p) (dict_get user ''user_id'')) posts)"
proof -
  let ?own = "filter (\<lambda>p. uuid_eq (P_user_id p) (dict_get user ''user_id'')) posts"
  from assms obtain items where
    i: "post_items users ?own = Inr items" and r: "pl_data res = items"
    by (auto simp: get_posts_def state_user_of_def Let_def split: sum.splits)
  from post_items_ids [OF i] r show ?thesis by simp
qed

lemma put_post_not_found:
  assumes "state_user req = Some user"
    and "find (\<lambda>p. P_id p = ident \<and> uuid_eq (P_user_id p) (dict_get user ''user_id'')) posts
         = None"
  shows "put_post req ident body posts = (Inl (HTTPException 404 ''Post not found''), posts)"
  using assms by (simp add: put_post_def state_user_of_def)

lemma patch_post_not_found:
  assumes "state_user req = Some user"
    and "find (\<lambda>p. P_id p = ident \<and> uuid_eq (P_user_id p) (dict_get user ''user_id'')) posts
         = None"
  shows "patch_post req ident upd posts = (Inl (HTTPException 404 ''Post not found''), posts)"
  using assms by (simp add: patch_post_def state_user_of_def)

lemma delete_post_not_found:
  assumes "state_user req = Some user"
    and "find (\<lambda>p. P_id p = ident \<and> uuid_eq (P_user_id p) (dict_get user ''user_id'')) posts
         = None"
  shows "delete_post req ident posts = (Inl (HTTPException 404 ''Post not found''), posts)"
  using assms by (simp add: delete_post_def state_user_of_def)

lemma get_posts_removeAll:
  assumes "\<not> uuid_eq (P_user_id p) (dict_get user ''user_id'')"
    and "state_user req = Some user"
  shows "get_posts req users (removeAll p posts) = get_posts req users posts"
  using assms by (simp add: get_posts_def state_user_of_def filter_removeAll_other)









section \<open>Claims\<close>

text \<open>
  C1, as the claim states it, fails: \<open>/login/x\<close> is not one of the three exact paths
  and starts with none of the three documentation prefixes, yet the middleware treats it
  as public, because \<^verbatim>\<open>public_routes[1:]\<close> drops only \<open>/\<close> from the prefix test.
\<close>

theorem C1_login_subpath_counterexample:
  "is_public ''/login/x'' \<and> \<not> spec_public ''/login/x''"
  by (simp add: is_public_def spec_public_def public_routes_def startswith_def)

text \<open>
  C1, amended. A path is public exactly when it equals \<open>/\<close> or starts with one of
  \<open>/login/\<close>, \<open>/register/\<close>, \<open>/docs\<close>, \<open>/redoc\<close>, \<open>/openapi.json\<close>. A public request is
  forwarded as it is, whatever its headers and whatever the decoder says. A request that
  is not public reaches the next stage only with an \<open>Authorization\<close> header that starts
  with \<open>Bearer\<close> and a space and whose second space-separated piece decodes.
\<close>

theorem C1_public_paths:
  "(is_public (url_path req) \<longleftrightarrow>
      (url_path req = ''/'' \<or> prefix ''/login/'' (url_path req)
       \<or> prefix ''/register/'' (url_path req) \<or> prefix ''/docs'' (url_path req)
       \<or> prefix ''/redoc'' (url_path req) \<or> prefix ''/openapi.json'' (url_path req)))
   \<and> (is_public (url_path req) \<longrightarrow> dispatch jwt_decode req call_next = Next (call_next req))
   \<and> (\<not> is_public (url_path req) \<longrightarrow>
        (\<forall>r. dispatch jwt_decode req call_next = Next r \<longrightarrow>
           (\<exists>h. authorization req = Some h \<and> prefix ''Bearer '' h
                \<and> jwt_decode (split h (CHR '' '') ! 1) \<noteq> None)))"
  by (auto simp: is_public_iff dispatch_def startswith_prefix Let_def
           split: option.splits if_splits)

text \<open>
  C1, witness: \<open>/login/x\<close> without any header is forwarded, and \<open>/api/books/\<close> is not
  public.
\<close>

theorem C1_public_paths_witness:
  "is_public ''/login/x''
   \<and> dispatch (\<lambda>t. None) \<lparr>url_path = ''/login/x'', authorization = None, state_user = None\<rparr> url_path
       = Next ''/login/x''
   \<and> \<not> is_public ''/api/books/''"
  using C1_public_paths [of "\<lparr>url_path = ''/login/x'', authorization = None, state_user = None\<rparr>"
                            "\<lambda>t. None" url_path]
        C1_public_paths [of "\<lparr>url_path = ''/api/books/'', authorization = None, state_user = None\<rparr>"
                            "\<lambda>t. None" url_path]
  by simp

text \<open>
  C2. Let the caller be authenticated and let a post with the addressed identifier
  exist and belong to someone else (identifiers being unique, as the primary key makes
  them). Then PUT, PATCH and DELETE by that identifier answer 404 "Post not found" and
  leave the table unchanged, exactly as they do on the table without that post, where
  the identifier does not exist; the list operation gives the same response with and
  without that post, and the identifier is not in the list.
\<close>

theorem C2_other_owner_is_not_found:
  assumes "state_user req = Some user"
    and "distinct (map P_id posts)"
    and "p \<in> set posts"
    and "P_id p = ident"
    and "dict_get user ''user_id'' \<noteq> JStr (P_user_id p)"
  shows "put_post req ident body posts = (Inl (HTTPException 404 ''Post not found''), posts)
       \<and> put_post req ident body (removeAll p posts)
           = (Inl (HTTPException 404 ''Post not found''), removeAll p posts)
       \<and> patch_post req ident upd posts = (Inl (HTTPException 404 ''Post not found''), posts)
       \<and> patch_post req ident upd (removeAll p posts)
           = (Inl (HTTPException 404 ''Post not found''), removeAll p posts)
       \<and> delete_post req ident posts = (Inl (HTTPException 404 ''Post not found''), posts)
       \<and> delete_post req ident (removeAll p posts)
           = (Inl (HTTPException 404 ''Post not found''), removeAll p posts)
       \<and> get_posts req users posts = get_posts req users (removeAll p posts)
       \<and> (\<forall>res. get_posts req users posts = Inr res \<longrightarrow> ident \<notin> pi_id ` set (pl_data res))"
proof -
  let ?v = "dict_get user ''user_id''"
  from assms(5) have other: "\<not> uuid_eq (P_user_id p) ?v"
    by (simp add: uuid_eq_def)
  have f1: "find (\<lambda>q. P_id q = ident \<and> uuid_eq (P_user_id q) ?v) posts = None"
    using assms(2,3,4) other by (rule find_other_owner)
  have f2: "find (\<lambda>q. P_id q = ident \<and> uuid_eq (P_user_id q) ?v) (removeAll p posts) = None"
    using assms(2,3,4) by (rule find_missing_id)
  have l: "ident \<notin> pi_id ` set (pl_data res)" if g: "get_posts req users posts = Inr res" for res
  proof
    assume "ident \<in> pi_id ` set (pl_data res)"
    then have "ident \<in> set (map pi_id (pl_data res))" by simp
    then have "ident \<in> set (map P_id (filter (\<lambda>p. uuid_eq (P_user_id p) ?v) posts))"
      by (simp only: get_posts_ids [OF assms(1) g])
    then obtain q where q: "q \<in> set posts" and o: "uuid_eq (P_user_id q) ?v"
      and i: "P_id q = ident" by auto
    from i assms(4) have "P_id q = P_id p" by simp
    with assms(2,3) q have "q = p" by (rule distinct_id_unique)
    with o other show False by simp
  qed
  from put_post_not_found [OF assms(1) f1] put_post_not_found [OF assms(1) f2]
    patch_post_not_found [OF assms(1) f1] patch_post_not_found [OF assms(1) f2]
    delete_post_not_found [OF assms(1) f1] delete_post_not_found [OF assms(1) f2]
    get_posts_removeAll [OF other assms(1)] l
  show ?thesis by simp
qed

text \<open>
  C2, witness: user u1 addresses post p1 of user u2.
\<close>

theorem C2_other_owner_is_not_found_witness:
  "put_post \<lparr>url_path = ''/api/posts/p1/'', authorization = None,
              state_user = Some [''user_id'' \<mapsto> JStr ''u1'']\<rparr> ''p1''
     \<lparr>pc_title = ''mine'', pc_content = None\<rparr>
     [\<lparr>P_id = ''p1'', P_title = ''hers'', P_content = None, P_created_at = 0,
       P_user_id = ''u2''\<rparr>]
   = (Inl (HTTPException 404 ''Post not found''),
      [\<lparr>P_id = ''p1'', P_title = ''hers'', P_content = None, P_created_at = 0,
        P_user_id = ''u2''\<rparr>])
   \<and> put_post \<lparr>url_path = ''/api/posts/p1/'', authorization = None,
              state_user = Some [''user_id'' \<mapsto> JStr ''u1'']\<rparr> ''p1''
     \<lparr>pc_title = ''mine'', pc_content = None\<rparr> []
   = (Inl (HTTPException 404 ''Post not found''), [])
   \<and> delete_post \<lparr>url_path = ''/api/posts/p1/'', authorization = None,
              state_user = Some [''user_id'' \<mapsto> JStr ''u1'']\<rparr> ''p1''
     [\<lparr>P_id = ''p1'', P_title = ''hers'', P_content = None, P_created_at = 0,
       P_user_id = ''u2''\<rparr>]
   = (Inl (HTTPException 404 ''Post not found''),
      [\<lparr>P_id = ''p1'', P_title = ''hers'', P_content = None, P_created_at = 0,
        P_user_id = ''u2''\<rparr>])
   \<and> get_posts \<lparr>url_path = ''/api/posts/p1/'', authorization = None,
              state_user = Some [''user_id'' \<mapsto> JStr ''u1'']\<rparr> []
     [\<lparr>P_id = ''p1'', P_title = ''hers'', P_content = None, P_created_at = 0,
       P_user_id = ''u2''\<rparr>]
   = Inr \<lparr>pl_total = 0, pl_data = [], pl_status = True\<rparr>"
proof -
  let ?req = "\<lparr>url_path = ''/api/posts/p1/'', authorization = None,
              state_user = Some [''user_id'' \<mapsto> JStr ''u1'']\<rparr>"
  let ?p = "\<lparr>P_id = ''p1'', P_title = ''hers'', P_content = None, P_created_at = 0,
       P_user_id = ''u2''\<rparr>"
  have 1: "state_user ?req = Some [''user_id'' \<mapsto> JStr ''u1'']" by simp
  have 2: "distinct (map P_id [?p])" by simp
  have 3: "?p \<in> set [?p]" by simp
  have 4: "P_id ?p = ''p1''" by simp
  have 5: "dict_get [''user_id'' \<mapsto> JStr ''u1''] ''user_id'' \<noteq> JStr (P_user_id ?p)"
    by (simp add: dict_get_def)
  have g: "get_posts ?req [] [] = Inr \<lparr>pl_total = 0, pl_data = [], pl_status = True\<rparr>"
    by (simp add: get_posts_def state_user_of_def)
  from C2_other_owner_is_not_found [OF 1 2 3 4 5,
      of "\<lparr>pc_title = ''mine'', pc_content = None\<rparr>" _ "[]"] g
  show ?thesis by simp
qed

text \<open>
  C3. For an existing book, \<open>patch_book\<close> succeeds and writes back a record with the same
  identifier in which each of title, author and price is the supplied value when that
  value is truthy and the stored value otherwise (not supplied, empty string, zero).
  Rows with another identifier are unchanged.
\<close>

theorem C3_patch_book_truthy:
  assumes "find (\<lambda>b. B_id b = ident) books = Some old"
  shows "\<exists>new. patch_book ident book books
               = (Inr new, map (\<lambda>r. if B_id r = ident then new else r) books)
     \<and> B_id new = B_id old
     \<and> (truthy_str (bu_title book) \<longrightarrow> bu_title book = Some (B_title new))
     \<and> (\<not> truthy_str (bu_title book) \<longrightarrow> B_title new = B_title old)
     \<and> (truthy_str (bu_author book) \<longrightarrow> B_author new = bu_author book)
     \<and> (\<not> truthy_str (bu_author book) \<longrightarrow> B_author new = B_author old)
     \<and> (truthy_float (bu_price book) \<longrightarrow> bu_price book = Some (B_price new))
     \<and> (\<not> truthy_float (bu_price book) \<longrightarrow> B_price new = B_price old)"
  using assms find_id_Some [OF assms]
  by (auto simp: patch_book_def update_book_def truthy_str_def truthy_float_def Let_def
           split: option.splits)

text \<open>
  C3, witness: an empty title, no author and price \<open>0\<close> leave the stored book as it was.
\<close>

theorem C3_patch_book_truthy_witness:
  "patch_book ''b1'' \<lparr>bu_title = Some '''', bu_author = None, bu_price = Some 0\<rparr>
     [\<lparr>B_id = ''b1'', B_title = ''Dune'', B_author = Some ''Herbert'', B_price = 9\<rparr>]
   = (Inr \<lparr>B_id = ''b1'', B_title = ''Dune'', B_author = Some ''Herbert'', B_price = 9\<rparr>,
      [\<lparr>B_id = ''b1'', B_title = ''Dune'', B_author = Some ''Herbert'', B_price = 9\<rparr>])"
  using C3_patch_book_truthy [of "''b1''"
      "[\<lparr>B_id = ''b1'', B_title = ''Dune'', B_author = Some ''Herbert'', B_price = 9\<rparr>]"
      "\<lparr>B_id = ''b1'', B_title = ''Dune'', B_author = Some ''Herbert'', B_price = 9\<rparr>"
      "\<lparr>bu_title = Some '''', bu_author = None, bu_price = Some 0\<rparr>"]
  by (auto simp: truthy_str_def truthy_float_def)

text \<open>
  C4. \<open>register_user\<close> answers 400 "Username or email already registered" and leaves the
  users unchanged exactly when some user has the supplied username or the supplied email.
  Otherwise it appends exactly one user, whose stored password is
  \<open>get_password_hash\<close> of \<open>password1\<close>, and returns the identifier, username, email and
  names of that user; the response record has no password field.
\<close>

theorem C4_register_user:
  "((\<exists>u\<in>set users. U_username u = Some (uc_username user) \<or> U_email u = Some (uc_email user))
      \<longrightarrow> register_user au new_id user users
            = (Inl (HTTPException 400 ''Username or email already registered''), users))
   \<and> (\<not> (\<exists>u\<in>set users. U_username u = Some (uc_username user) \<or> U_email u = Some (uc_email user))
      \<longrightarrow> register_user au new_id user users
            = (Inr \<lparr>ur_id = new_id, ur_username = Some (uc_username user),
                    ur_email = Some (uc_email user), ur_first_name = uc_first_name user,
                    ur_last_name = uc_last_name user\<rparr>,
               users @ [\<lparr>U_id = new_id, U_username = Some (uc_username user),
                          U_email = Some (uc_email user),
                          U_password = Some (get_password_hash au (uc_password1 user)),
                          U_first_name = uc_first_name user,
                          U_last_name = uc_last_name user\<rparr>]))
   \<and> (fst (register_user au new_id user users)
         = Inl (HTTPException 400 ''Username or email already registered'')
      \<longleftrightarrow> (\<exists>u\<in>set users. U_username u = Some (uc_username user)
                           \<or> U_email u = Some (uc_email user)))"
proof -
  let ?P = "\<lambda>u. col_eq (U_username u) (uc_username user) \<or> col_eq (U_email u) (uc_email user)"
  show ?thesis
  proof (cases "find ?P users")
    case None
    then have "\<not> (\<exists>u\<in>set users. ?P u)" by (simp add: find_None_set)
    with None show ?thesis
      by (simp add: register_user_def col_eq_def Let_def)
  next
    case (Some e)
    then have "\<exists>u\<in>set users. ?P u" by (auto simp: find_Some_iff)
    with Some show ?thesis
      by (simp add: register_user_def col_eq_def Let_def)
  qed
qed

text \<open>
  C4, witness: with alice registered, registering bob appends bob with the hashed
  password, and registering alice's username again is refused and changes nothing.
\<close>

theorem C4_register_user_witness:
  "register_user example_auth ''u2''
     \<lparr>uc_username = ''bob'', uc_email = ''bob@x.org'', uc_password1 = ''pw'',
      uc_first_name = None, uc_last_name = None\<rparr>
     [\<lparr>U_id = ''u1'', U_username = Some ''alice'', U_email = Some ''alice@x.org'',
       U_password = Some ''hashed:a'', U_first_name = None, U_last_name = None\<rparr>]
   = (Inr \<lparr>ur_id = ''u2'', ur_username = Some ''bob'', ur_email = Some ''bob@x.org'',
           ur_first_name = None, ur_last_name = None\<rparr>,
      [\<lparr>U_id = ''u1'', U_username = Some ''alice'', U_email = Some ''alice@x.org'',
        U_password = Some ''hashed:a'', U_first_name = None, U_last_name = None\<rparr>,
       \<lparr>U_id = ''u2'', U_username = Some ''bob'', U_email = Some ''bob@x.org'',
        U_password = Some ''hashed:pw'', U_first_name = None, U_last_name = None\<rparr>])
   \<and> register_user example_auth ''u2''
     \<lparr>uc_username = ''alice'', uc_email = ''bob@x.org'', uc_password1 = ''pw'',
      uc_first_name = None, uc_last_name = None\<rparr>
     [\<lparr>U_id = ''u1'', U_username = Some ''alice'', U_email = Some ''alice@x.org'',
       U_password = Some ''hashed:a'', U_first_name = None, U_last_name = None\<rparr>]
   = (Inl (HTTPException 400 ''Username or email already registered''),
      [\<lparr>U_id = ''u1'', U_username = Some ''alice'', U_email = Some ''alice@x.org'',
        U_password = Some ''hashed:a'', U_first_name = None, U_last_name = None\<rparr>])"
  using C4_register_user [of
     "[\<lparr>U_id = ''u1'', U_username = Some ''alice'', U_email = Some ''alice@x.org'',
       U_password = Some ''hashed:a'', U_first_name = None, U_last_name = None\<rparr>]"
     "\<lparr>uc_username = ''bob'', uc_email = ''bob@x.org'', uc_password1 = ''pw'',
      uc_first_name = None, uc_last_name = None\<rparr>" example_auth "''u2''"]
    C4_register_user [of
     "[\<lparr>U_id = ''u1'', U_username = Some ''alice'', U_email = Some ''alice@x.org'',
       U_password = Some ''hashed:a'', U_first_name = None, U_last_name = None\<rparr>]"
     "\<lparr>uc_username = ''alice'', uc_email = ''bob@x.org'', uc_password1 = ''pw'',
      uc_first_name = None, uc_last_name = None\<rparr>" example_auth "''u2''"]
  by (simp add: example_auth_simps example_hash_def)

text \<open>
  C5. \<open>login_user\<close> answers 401 "Incorrect username or password" exactly when no user's
  username or email equals the supplied value, or the password does not verify against
  the stored hash of the user found. Otherwise the body holds the access token and the
  refresh token, both made from the claims username, email, first_name, last_name and
  user_id of that user (for 30 minutes and 5 hours), and the user's username, email and
  names.
\<close>

theorem C5_login_user:
  "(login_user au now user users = Inl (HTTPException 401 ''Incorrect username or password'')
      \<longleftrightarrow> (case find (\<lambda>u. U_username u = Some (ul_username_or_email user)
                          \<or> U_email u = Some (ul_username_or_email user)) users of
             None \<Rightarrow> True
           | Some db_user \<Rightarrow> \<not> verify_password au (ul_password user) (U_password db_user)))
   \<and> (find (\<lambda>u. U_username u = Some (ul_username_or_email user)
                \<or> U_email u = Some (ul_username_or_email user)) users = None
      \<longleftrightarrow> \<not> (\<exists>u\<in>set users. U_username u = Some (ul_username_or_email user)
                          \<or> U_email u = Some (ul_username_or_email user)))
   \<and> (\<forall>db_user.
        find (\<lambda>u. U_username u = Some (ul_username_or_email user)
                \<or> U_email u = Some (ul_username_or_email user)) users = Some db_user
        \<and> verify_password au (ul_password user) (U_password db_user)
        \<longrightarrow> login_user au now user users
              = Inr \<lparr>lr_access_token = create_access_token au now (user_data db_user) 1800,
                     lr_refresh_token = create_refresh_token au now (user_data db_user) 18000,
                     lr_username = U_username db_user, lr_email = U_email db_user,
                     lr_first_name = U_first_name db_user, lr_last_name = U_last_name db_user\<rparr>
            \<and> dom (user_data db_user)
              = {''username'', ''email'', ''first_name'', ''last_name'', ''user_id''}
            \<and> user_data db_user ''username'' = Some (jval_of (U_username db_user))
            \<and> user_data db_user ''email'' = Some (jval_of (U_email db_user))
            \<and> user_data db_user ''first_name'' = Some (jval_of (U_first_name db_user))
            \<and> user_data db_user ''last_name'' = Some (jval_of (U_last_name db_user))
            \<and> user_data db_user ''user_id'' = Some (JStr (U_id db_user)))"
proof -
  let ?P = "\<lambda>u. U_username u = Some (ul_username_or_email user)
                \<or> U_email u = Some (ul_username_or_email user)"
  have P: "(\<lambda>u. col_eq (U_username u) (ul_username_or_email user)
                \<or> col_eq (U_email u) (ul_username_or_email user)) = ?P"
    by (simp add: col_eq_def)
  have mid: "find ?P users = None \<longleftrightarrow> \<not> (\<exists>u\<in>set users. ?P u)"
    by (rule find_None_set)
  have fail: "login_user au now user users
                 = Inl (HTTPException 401 ''Incorrect username or password'')
      \<longleftrightarrow> (case find ?P users of
             None \<Rightarrow> True
           | Some db_user \<Rightarrow> \<not> verify_password au (ul_password user) (U_password db_user))"
  proof (cases "find ?P users")
    case None
    then show ?thesis using login_user_None [of user users au now] by (simp add: P)
  next
    case (Some d)
    then show ?thesis using login_user_Some [of user users d au now] by (simp add: P)
  qed
  have ok: "\<forall>db_user.
        find ?P users = Some db_user
        \<and> verify_password au (ul_password user) (U_password db_user)
        \<longrightarrow> login_user au now user users
              = Inr \<lparr>lr_access_token = create_access_token au now (user_data db_user) 1800,
                     lr_refresh_token = create_refresh_token au now (user_data db_user) 18000,
                     lr_username = U_username db_user, lr_email = U_email db_user,
                     lr_first_name = U_first_name db_user, lr_last_name = U_last_name db_user\<rparr>
            \<and> dom (user_data db_user)
              = {''username'', ''email'', ''first_name'', ''last_name'', ''user_id''}
            \<and> user_data db_user ''username'' = Some (jval_of (U_username db_user))
            \<and> user_data db_user ''email'' = Some (jval_of (U_email db_user))
            \<and> user_data db_user ''first_name'' = Some (jval_of (U_first_name db_user))
            \<and> user_data db_user ''last_name'' = Some (jval_of (U_last_name db_user))
            \<and> user_data db_user ''user_id'' = Some (JStr (U_id db_user))"
  proof (intro allI impI, elim conjE)
    fix d
    assume f: "find ?P users = Some d"
      and v: "verify_password au (ul_password user) (U_password d)"
    from f have f': "find (\<lambda>u. col_eq (U_username u) (ul_username_or_email user)
                \<or> col_eq (U_email u) (ul_username_or_email user)) users = Some d"
      by (simp add: P)
    show "login_user au now user users
              = Inr \<lparr>lr_access_token = create_access_token au now (user_data d) 1800,
                     lr_refresh_token = create_refresh_token au now (user_data d) 18000,
                     lr_username = U_username d, lr_email = U_email d,
                     lr_first_name = U_first_name d, lr_last_name = U_last_name d\<rparr>
            \<and> dom (user_data d)
              = {''username'', ''email'', ''first_name'', ''last_name'', ''user_id''}
            \<and> user_data d ''username'' = Some (jval_of (U_username d))
            \<and> user_data d ''email'' = Some (jval_of (U_email d))
            \<and> user_data d ''first_name'' = Some (jval_of (U_first_name d))
            \<and> user_data d ''last_name'' = Some (jval_of (U_last_name d))
            \<and> user_data d ''user_id'' = Some (JStr (U_id d))"
      using login_user_Some [OF f', of au now] v
      by (simp add: user_data_lookups user_data_dom)
  qed
  from fail mid ok show ?thesis by (intro conjI)
qed

text \<open>
  C5, witness: alice logs in with the right password and gets both tokens; the wrong
  password is refused.
\<close>

theorem C5_login_user_witness:
  "login_user example_auth 0 \<lparr>ul_username_or_email = ''alice'', ul_password = ''a''\<rparr>
     [\<lparr>U_id = ''u1'', U_username = Some ''alice'', U_email = Some ''alice@x.org'',
       U_password = Some ''hashed:a'', U_first_name = None, U_last_name = None\<rparr>]
   = Inr \<lparr>lr_access_token = spec_create_token ''secret'' ''HS256'' 0
             (user_data \<lparr>U_id = ''u1'', U_username = Some ''alice'',
               U_email = Some ''alice@x.org'', U_password = Some ''hashed:a'',
               U_first_name = None, U_last_name = None\<rparr>) 1800,
           lr_refresh_token = spec_create_token ''secret'' ''HS256'' 0
             (user_data \<lparr>U_id = ''u1'', U_username = Some ''alice'',
               U_email = Some ''alice@x.org'', U_password = Some ''hashed:a'',
               U_first_name = None, U_last_name = None\<rparr>) 18000,
           lr_username = Some ''alice'', lr_email = Some ''alice@x.org'',
           lr_first_name = None, lr_last_name = None\<rparr>
   \<and> login_user example_auth 0 \<lparr>ul_username_or_email = ''alice'', ul_password = ''b''\<rparr>
     [\<lparr>U_id = ''u1'', U_username = Some ''alice'', U_email = Some ''alice@x.org'',
       U_password = Some ''hashed:a'', U_first_name = None, U_last_name = None\<rparr>]
   = Inl (HTTPException 401 ''Incorrect username or password'')"
  using C5_login_user [of example_auth 0
     "\<lparr>ul_username_or_email = ''alice'', ul_password = ''a''\<rparr>"
     "[\<lparr>U_id = ''u1'', U_username = Some ''alice'', U_email = Some ''alice@x.org'',
       U_password = Some ''hashed:a'', U_first_name = None, U_last_name = None\<rparr>]"]
    C5_login_user [of example_auth 0
     "\<lparr>ul_username_or_email = ''alice'', ul_password = ''b''\<rparr>"
     "[\<lparr>U_id = ''u1'', U_username = Some ''alice'', U_email = Some ''alice@x.org'',
       U_password = Some ''hashed:a'', U_first_name = None, U_last_name = None\<rparr>]"]
  by (simp add: example_auth_simps example_hash_def example_verify_def)







text \<open>
  C8. With the token layer of the specification, a token made by
  \<open>create_access_token\<close> or \<open>create_refresh_token\<close> for a positive duration decodes, at
  any time before its expiry, to exactly the supplied claims with the expiration timestamp
  added; past its expiry, or signed with another key, or not a token at all, it decodes
  to the absent result. \<open>decode_token\<close> is total: it returns and never raises.
\<close>

theorem C8_token_round_trip:
  "(0 < delta \<and> now' < now + delta \<longrightarrow>
      decode_token (spec_auth sk alg h v) now'
        (create_access_token (spec_auth sk alg h v) now data delta)
        = Some (data(''exp'' \<mapsto> JNum (now + delta)))
      \<and> decode_token (spec_auth sk alg h v) now'
        (create_refresh_token (spec_auth sk alg h v) now data delta)
        = Some (data(''exp'' \<mapsto> JNum (now + delta))))
   \<and> (now + delta < now' \<longrightarrow>
      decode_token (spec_auth sk alg h v) now'
        (create_access_token (spec_auth sk alg h v) now data delta) = None
      \<and> decode_token (spec_auth sk alg h v) now'
        (create_refresh_token (spec_auth sk alg h v) now data delta) = None)
   \<and> (k \<noteq> sk \<longrightarrow> decode_token (spec_auth sk alg h v) now' (Signed k a payload) = None)
   \<and> decode_token (spec_auth sk alg h v) now' (Garbage s) = None"
  by (simp add: spec_auth_def spec_decode_create) (simp add: spec_decode_token_def)

text \<open>
  C8, witness: a 30-minute token made at time 0 decodes at 1799, not at 1801, and a
  token signed with another key does not decode.
\<close>

theorem C8_token_round_trip_witness:
  "decode_token example_auth 1799
     (create_access_token example_auth 0 [''sub'' \<mapsto> JStr ''alice''] 1800)
     = Some [''sub'' \<mapsto> JStr ''alice'', ''exp'' \<mapsto> JNum 1800]
   \<and> decode_token example_auth 1801
     (create_access_token example_auth 0 [''sub'' \<mapsto> JStr ''alice''] 1800) = None
   \<and> decode_token example_auth 0 (Signed ''other'' ''HS256'' [''sub'' \<mapsto> JStr ''alice''])
     = None"
  using C8_token_round_trip [of 1800 1799 0 "''secret''" "''HS256''" example_hash
          example_verify "[''sub'' \<mapsto> JStr ''alice'']" "''other''" "''HS256''"
          "[''sub'' \<mapsto> JStr ''alice'']" "''x''"]
        C8_token_round_trip [of 1800 1801 0 "''secret''" "''HS256''" example_hash
          example_verify "[''sub'' \<mapsto> JStr ''alice'']" "''other''" "''HS256''"
          "[''sub'' \<mapsto> JStr ''alice'']" "''x''"]
        C8_token_round_trip [of 1800 0 0 "''secret''" "''HS256''" example_hash
          example_verify "[''sub'' \<mapsto> JStr ''alice'']" "''other''" "''HS256''"
          "[''sub'' \<mapsto> JStr ''alice'']" "''x''"]
  by (simp add: example_auth_def)

text \<open>
  C9. A request to \<open>/profile/\<close> whose bearer token decodes to a claim set without
  \<open>username\<close> (or with it but without \<open>email\<close>) passes the middleware, and the handler
  raises \<^verbatim>\<open>KeyError\<close>, which nothing turns into a JSON error response.
\<close>

theorem C9_profile_key_error:
  assumes "url_path req = ''/profile/''"
    and "authorization req = Some (''Bearer '' @ tok)"
    and "CHR '' '' \<notin> set tok"
    and "jwt_decode tok = Some payload"
  shows "(payload ''username'' = None \<longrightarrow>
            dispatch jwt_decode req profile = Next (Inl (KeyError ''username'')))
       \<and> (payload ''username'' \<noteq> None \<and> payload ''email'' = None \<longrightarrow>
            dispatch jwt_decode req profile = Next (Inl (KeyError ''email'')))"
proof -
  have "dispatch jwt_decode req profile = Next (profile (req\<lparr>state_user := Some payload\<rparr>))"
    using assms by (rule dispatch_profile_forward)
  then show ?thesis
    by (auto simp: profile_def state_user_of_def)
qed

text \<open>
  C9, witness: a token with the claims of a refreshed token, \<open>sub\<close> and \<open>exp\<close> only.
\<close>

theorem C9_profile_key_error_witness:
  "dispatch example_jwt_decode
     \<lparr>url_path = ''/profile/'', authorization = Some ''Bearer t1'', state_user = None\<rparr>
     profile
   = Next (Inl (KeyError ''username''))"
  using C9_profile_key_error [of
     "\<lparr>url_path = ''/profile/'', authorization = Some ''Bearer t1'', state_user = None\<rparr>"
     "''t1''" example_jwt_decode "[''sub'' \<mapsto> JStr ''alice'', ''exp'' \<mapsto> JNum 1800]"]
  by (simp add: example_jwt_decode_def)

text \<open>
  C10. For every environment, the connection string is
  \<open>postgresql://<user>:<password>@<host>/<name>\<close>, each part the formatted value of its
  environment variable, and the value of \<open>DB_PORT\<close>, although read, has no influence
  on it: setting, changing or removing the port leaves the string the same.
\<close>

theorem C10_database_url_ignores_port:
  "DATABASE_URL env =
     ''postgresql://'' @ str_opt (env ''DB_USER'') @ '':'' @ str_opt (env ''DB_PASSWORD'')
       @ ''@'' @ str_opt (env ''DB_HOST'') @ ''/'' @ str_opt (env ''DB_NAME'')
   \<and> DATABASE_URL (env(''DB_PORT'' := port)) = DATABASE_URL env
   \<and> DB_PORT (env(''DB_PORT'' := port)) = port"
  by (simp add: DATABASE_URL_def DB_USER_def DB_PASSWORD_def DB_HOST_def DB_NAME_def
      DB_PORT_def)

end
